theory Spec2Isabelle
  imports Main
begin

section \<open>JavaScript values\<close>

text \<open>
  The SDK handles bodies of type \<open>any\<close>. The values of the model are the ones that
  \<open>JSON.parse\<close> returns: null, booleans, numbers, strings, arrays and objects with their
  own properties, and one more that a request can hold and that \<open>JSON.stringify\<close>
  refuses, a BigInt. A number is kept as the text that \<open>String\<close> gives for it (\<open>42\<close>,
  \<open>-1.5\<close>, \<open>1e+21\<close>, \<open>NaN\<close>); it is falsy when that text is \<open>0\<close> or \<open>NaN\<close>.
  \<open>undefined\<close> is \<open>None\<close> of an option type. Strings are sequences of bytes: a header
  value or a reason phrase is a byte string, a text is taken in its UTF-8 encoding, so
  that a text with a lone surrogate is outside the model.
\<close>

datatype jsval =
    JNull
  | JBool bool
  | JNum string
  | JBigInt int
  | JStr string
  | JArr "jsval list"
  | JObj "(string \<times> jsval) list"

text \<open>ToBoolean: what \<open>!x\<close>, \<open>x || y\<close>, \<open>x && y\<close> and \<open>x ? y : z\<close> test.\<close>

fun truthy :: "jsval \<Rightarrow> bool" where
  "truthy JNull = False"
| "truthy (JBool b) = b"
| "truthy (JNum s) = (s \<noteq> ''0'' \<and> s \<noteq> ''NaN'')"
| "truthy (JBigInt n) = (n \<noteq> 0)"
| "truthy (JStr s) = (s \<noteq> [])"
| "truthy (JArr xs) = True"
| "truthy (JObj ps) = True"

text \<open>
  \<open>a || b\<close> where \<open>a\<close> may be undefined: \<open>a\<close> when it is truthy, else \<open>b\<close> as it is.
  The first argument is the truthiness test of the type of \<open>a\<close>.
\<close>

definition or_else :: "('a \<Rightarrow> bool) \<Rightarrow> 'a option \<Rightarrow> 'a option \<Rightarrow> 'a option" where
  "or_else t a b = (case a of None \<Rightarrow> b | Some x \<Rightarrow> if t x then a else b)"

text \<open>\<open>a || d\<close> where \<open>d\<close> is a defined value: the last operand of a chain.\<close>

definition or_value :: "('a \<Rightarrow> bool) \<Rightarrow> 'a option \<Rightarrow> 'a \<Rightarrow> 'a" where
  "or_value t a d = (case a of None \<Rightarrow> d | Some x \<Rightarrow> if t x then x else d)"

definition truthy_string :: "string \<Rightarrow> bool" where
  "truthy_string s = (s \<noteq> [])"

definition truthy_number :: "nat \<Rightarrow> bool" where
  "truthy_number n = (n \<noteq> 0)"

text \<open>
  \<open>body?.key\<close> for the two keys the classifier reads, \<open>message\<close> and \<open>detail\<close>, which no
  prototype defines: the own property of an object, undefined on everything else
  (\<open>?.\<close> gives undefined on null and undefined, the property access gives undefined on
  a boolean, a number, a string and an array).
\<close>

fun get_prop :: "string \<Rightarrow> jsval option \<Rightarrow> jsval option" where
  "get_prop k (Some (JObj ps)) = map_of ps k"
| "get_prop k b = None"

section \<open>Numbers and strings of the platform\<close>

text \<open>
  The decimal digits of a whole number, as a template literal renders a duration in
  milliseconds, and as \<open>String\<close> renders a BigInt.
\<close>

definition digit_char :: "nat \<Rightarrow> char" where
  "digit_char d = ''0123456789'' ! d"

fun number_to_string :: "nat \<Rightarrow> string" where
  "number_to_string n =
     (if n < 10 then [digit_char n]
      else number_to_string (n div 10) @ [digit_char (n mod 10)])"

declare number_to_string.simps [simp del]

definition bigint_to_string :: "int \<Rightarrow> string" where
  "bigint_to_string n =
     (if n < 0 then CHR ''-'' # number_to_string (nat (- n)) else number_to_string (nat n))"

text \<open>
  ToString, the conversion that the constructor of \<open>Error\<close> applies to its argument.
  \<open>None\<close> stands for the \<open>TypeError\<close> that the conversion throws. An array is the
  texts of its elements, joined by commas, null counting as the empty text. An object
  is \<open>[object Object]\<close>, by the \<open>toString\<close> it inherits; an object with an own property
  \<open>toString\<close>, which is no function, has no method left that gives a primitive value,
  and the conversion throws.
\<close>

fun js_to_string :: "jsval \<Rightarrow> string option"
  and js_join :: "jsval list \<Rightarrow> string option" where
  "js_to_string JNull = Some ''null''"
| "js_to_string (JBool b) = Some (if b then ''true'' else ''false'')"
| "js_to_string (JNum s) = Some s"
| "js_to_string (JBigInt n) = Some (bigint_to_string n)"
| "js_to_string (JStr s) = Some s"
| "js_to_string (JArr xs) = js_join xs"
| "js_to_string (JObj ps) =
     (if map_of ps ''toString'' = None then Some ''[object Object]'' else None)"
| "js_join [] = Some []"
| "js_join (x # xs) =
     (case (if x = JNull then Some [] else js_to_string x) of
        None \<Rightarrow> None
      | Some s \<Rightarrow>
          if xs = [] then Some s
          else (case js_join xs of None \<Rightarrow> None | Some t \<Rightarrow> Some (s @ '','' @ t)))"

text \<open>
  \<open>JSON.stringify\<close> throws a \<open>TypeError\<close> on a value that holds a BigInt, and on no
  other value of the model.
\<close>

fun has_bigint :: "jsval \<Rightarrow> bool" where
  "has_bigint (JBigInt n) = True"
| "has_bigint (JArr xs) = list_ex has_bigint xs"
| "has_bigint (JObj ps) = list_ex (\<lambda>p. has_bigint (snd p)) ps"
| "has_bigint v = False"

text \<open>
  \<open>parseInt(s, 10)\<close>: leading white space is skipped, one sign is read, then the longest
  run of decimal digits; no digit gives \<open>NaN\<close>. (Radix 10 strips no \<open>0x\<close> prefix. The
  result is exact up to \<open>2^53\<close>; \<open>-0\<close> is \<open>0\<close> here.)
\<close>

datatype jsnum = NaN | Num int

definition is_white_space :: "char \<Rightarrow> bool" where
  "is_white_space c = ((of_char c :: nat) \<in> {9, 10, 11, 12, 13, 32, 160})"

definition is_digit :: "char \<Rightarrow> bool" where
  "is_digit c = (48 \<le> (of_char c :: nat) \<and> (of_char c :: nat) \<le> 57)"

definition digit_value :: "char \<Rightarrow> nat" where
  "digit_value c = (of_char c :: nat) - 48"

definition digits_value :: "string \<Rightarrow> nat" where
  "digits_value ds = foldl (\<lambda>a c. 10 * a + digit_value c) 0 ds"

definition parseInt :: "string \<Rightarrow> jsnum" where
  "parseInt s =
     (let t = dropWhile is_white_space s;
          neg = (t \<noteq> [] \<and> hd t = CHR ''-'');
          u = (if t \<noteq> [] \<and> (hd t = CHR ''-'' \<or> hd t = CHR ''+'') then tl t else t);
          ds = takeWhile is_digit u
      in if ds = [] then NaN
         else Num ((if neg then - 1 else 1) * int (digits_value ds)))"

section \<open>The error classes (errors.ts)\<close>

datatype error_name =
    APIError
  | AuthenticationError
  | RateLimitError
  | ValidationError
  | NetworkError
  | TimeoutError
  | ServerError

text \<open>
  One record for the class hierarchy: \<open>name\<close> tells the class, the other fields are the
  ones the base class and \<open>VectorcacheRateLimitError\<close> declare. \<open>message\<close> is the string
  that \<open>super(message)\<close> stores.
\<close>

record api_error =
  name :: error_name
  message :: string
  status :: "nat option"
  code :: "string option"
  details :: "jsval option"
  retryAfter :: "jsnum option"

text \<open>
  What can be thrown, or reject a promise: one of the SDK's errors, another instance of
  \<open>Error\<close> (its \<open>name\<close> and \<open>message\<close>), or a value that is no \<open>Error\<close> at all.
\<close>

datatype thrown =
    Typed api_error
  | ErrorInstance string string
  | NonError

text \<open>
  The \<open>TypeError\<close> of a failed ToString, and the one of \<open>JSON.stringify\<close> on a BigInt.
  The messages are the ones of V8; the SDK copies them and never inspects them.
\<close>

definition cannot_convert :: thrown where
  "cannot_convert = ErrorInstance ''TypeError'' ''Cannot convert object to primitive value''"

definition cannot_serialize :: thrown where
  "cannot_serialize = ErrorInstance ''TypeError'' ''Do not know how to serialize a BigInt''"

text \<open>
  The constructors. The base class hands its message to the constructor of \<open>Error\<close>,
  which converts it to a string. The parameter is declared a string, but
  \<open>createErrorFromResponse\<close> passes a value of type \<open>any\<close>, and the conversion of that
  value can throw: a constructor returns the new error, or what was thrown.
\<close>

definition VectorcacheAPIError ::
  "jsval \<Rightarrow> nat option \<Rightarrow> string option \<Rightarrow> jsval option \<Rightarrow> thrown + api_error" where
  "VectorcacheAPIError m st cd dt =
     (case js_to_string m of
        None \<Rightarrow> Inl cannot_convert
      | Some s \<Rightarrow>
          Inr \<lparr>name = APIError, message = s, status = st, code = cd, details = dt,
               retryAfter = None\<rparr>)"

text \<open>What a subclass does after \<open>super(...)\<close> has returned.\<close>

definition after_super :: "(api_error \<Rightarrow> api_error) \<Rightarrow> thrown + api_error \<Rightarrow> thrown + api_error" where
  "after_super f r = (case r of Inl ex \<Rightarrow> Inl ex | Inr e \<Rightarrow> Inr (f e))"

text \<open>A parameter with a default value: the default is taken when the argument is undefined.\<close>

definition default_to :: "'a \<Rightarrow> 'a option \<Rightarrow> 'a" where
  "default_to d a = (case a of None \<Rightarrow> d | Some x \<Rightarrow> x)"

definition VectorcacheAuthenticationError :: "jsval option \<Rightarrow> thrown + api_error" where
  "VectorcacheAuthenticationError m =
     after_super (\<lambda>e. e\<lparr>name := AuthenticationError\<rparr>)
       (VectorcacheAPIError (default_to (JStr ''Invalid or missing API key'') m)
          (Some 401) (Some ''AUTHENTICATION_ERROR'') None)"

definition VectorcacheRateLimitError ::
  "jsval option \<Rightarrow> jsnum option \<Rightarrow> thrown + api_error" where
  "VectorcacheRateLimitError m ra =
     after_super (\<lambda>e. e\<lparr>name := RateLimitError, retryAfter := ra\<rparr>)
       (VectorcacheAPIError (default_to (JStr ''Rate limit exceeded'') m)
          (Some 429) (Some ''RATE_LIMIT_ERROR'') None)"

definition VectorcacheValidationError :: "jsval \<Rightarrow> jsval option \<Rightarrow> thrown + api_error" where
  "VectorcacheValidationError m dt =
     after_super (\<lambda>e. e\<lparr>name := ValidationError\<rparr>)
       (VectorcacheAPIError m (Some 400) (Some ''VALIDATION_ERROR'') dt)"

definition VectorcacheNetworkError :: "jsval option \<Rightarrow> thrown + api_error" where
  "VectorcacheNetworkError m =
     after_super (\<lambda>e. e\<lparr>name := NetworkError\<rparr>)
       (VectorcacheAPIError (default_to (JStr ''Network error occurred'') m)
          None (Some ''NETWORK_ERROR'') None)"

definition VectorcacheTimeoutError :: "jsval option \<Rightarrow> thrown + api_error" where
  "VectorcacheTimeoutError m =
     after_super (\<lambda>e. e\<lparr>name := TimeoutError\<rparr>)
       (VectorcacheAPIError (default_to (JStr ''Request timeout'') m)
          (Some 408) (Some ''TIMEOUT_ERROR'') None)"

definition VectorcacheServerError :: "jsval option \<Rightarrow> nat option \<Rightarrow> thrown + api_error" where
  "VectorcacheServerError m st =
     after_super (\<lambda>e. e\<lparr>name := ServerError\<rparr>)
       (VectorcacheAPIError (default_to (JStr ''Internal server error'') m)
          (Some (default_to 500 st)) (Some ''SERVER_ERROR'') None)"

text \<open>
  \<open>throw new E(...)\<close>: the new error is thrown, unless its construction throws first.
\<close>

definition throw_new :: "thrown + api_error \<Rightarrow> thrown" where
  "throw_new r = (case r of Inl ex \<Rightarrow> ex | Inr e \<Rightarrow> Typed e)"

section \<open>The response and the classifier (errors.ts)\<close>

text \<open>
  What the code reads of a \<open>Response\<close>: \<open>status\<close>, \<open>statusText\<close>, \<open>headers.get\<close>, and
  \<open>text()\<close>, which settles \<open>resp_text_delay\<close> milliseconds after the response arrived,
  with the body or with a rejection. \<open>ok\<close> is the platform's test of the status.
\<close>

record response =
  resp_status :: nat
  resp_statusText :: string
  resp_headers_get :: "string \<Rightarrow> string option"
  resp_text_delay :: nat
  resp_text :: "thrown + string"

definition resp_ok :: "response \<Rightarrow> bool" where
  "resp_ok r = (200 \<le> resp_status r \<and> resp_status r \<le> 299)"

text \<open>Line 79: the value that becomes the message.\<close>

definition resolve_message :: "response \<Rightarrow> jsval option \<Rightarrow> jsval" where
  "resolve_message response responseBody =
     or_value truthy
       (or_else truthy
          (or_else truthy (get_prop ''message'' responseBody)
                          (get_prop ''detail'' responseBody))
          (Some (JStr (resp_statusText response))))
       (JStr ''Unknown error'')"

definition createErrorFromResponse ::
  "response \<Rightarrow> jsval option \<Rightarrow> thrown + api_error" where
  "createErrorFromResponse response responseBody =
     (let st = resp_status response;
          msg = resolve_message response responseBody
      in if st = 400 then VectorcacheValidationError msg responseBody
         else if st = 401 \<or> st = 403 then VectorcacheAuthenticationError (Some msg)
         else if st = 408 then VectorcacheTimeoutError (Some msg)
         else if st = 429 then
           (let ra = resp_headers_get response ''Retry-After''
            in VectorcacheRateLimitError (Some msg)
                 (case ra of
                    None \<Rightarrow> None
                  | Some h \<Rightarrow> if truthy_string h then Some (parseInt h) else None))
         else if st = 500 \<or> st = 502 \<or> st = 503 \<or> st = 504 then
           VectorcacheServerError (Some msg) (Some st)
         else VectorcacheAPIError msg (Some st) (Some ''API_ERROR'') responseBody)"

section \<open>The client (client.ts)\<close>

datatype LogLevel = debug | info | warn | error | none

record VectorcacheConfig =
  cfg_apiKey :: "string option"
  cfg_baseUrl :: "string option"
  cfg_projectId :: "string option"
  cfg_timeout :: "nat option"
  cfg_logLevel :: "LogLevel option"

record RequestOptions =
  opt_projectId :: "string option"
  opt_timeout :: "nat option"

record client =
  apiKey :: string
  baseUrl :: string
  defaultProjectId :: "string option"
  timeout :: nat
  logLevel :: LogLevel

text \<open>
  The constructor. A missing or empty \<open>apiKey\<close> throws a plain \<open>Error\<close>. Durations are
  whole milliseconds. Every name of a log level is a non-empty string, hence truthy.
\<close>

definition new_VectorcacheClient :: "VectorcacheConfig \<Rightarrow> thrown + client" where
  "new_VectorcacheClient config =
     (case cfg_apiKey config of
        None \<Rightarrow> Inl (ErrorInstance ''Error'' ''API key is required'')
      | Some k \<Rightarrow>
          if \<not> truthy_string k then Inl (ErrorInstance ''Error'' ''API key is required'')
          else Inr \<lparr>apiKey = k,
                    baseUrl = or_value truthy_string (cfg_baseUrl config)
                                ''https://api.vectorcache.com'',
                    defaultProjectId = cfg_projectId config,
                    timeout = or_value truthy_number (cfg_timeout config) 30000,
                    logLevel = or_value (\<lambda>l. True) (cfg_logLevel config) warn\<rparr>)"

definition setDefaultProjectId :: "client \<Rightarrow> string \<Rightarrow> client" where
  "setDefaultProjectId c projectId = c\<lparr>defaultProjectId := Some projectId\<rparr>"

section \<open>The transport\<close>

text \<open>
  One call of \<open>fetch\<close> is described by when its promise settles unless it is aborted
  before (milliseconds after the call) and by how: with a response, once the status line
  and the headers have arrived, or with a rejection. \<open>JSON.parse\<close> is the platform's and
  gives \<open>None\<close> where it throws a \<open>SyntaxError\<close>. The body of a request is kept as the
  value that \<open>JSON.stringify\<close> is applied to. A timer runs its callback at its delay or
  later: \<open>timer_lag\<close> is how much later.
\<close>

datatype http_method = GET | POST | PUT | DELETE

record request =
  req_url :: string
  req_method :: http_method
  req_headers :: "(string \<times> string) list"
  req_body :: "jsval option"

record fetch_behaviour =
  fetch_delay :: nat
  fetch_outcome :: "thrown + response"

record platform =
  fetch :: "request \<Rightarrow> fetch_behaviour"
  JSON_parse :: "string \<Rightarrow> jsval option"
  timer_lag :: nat

text \<open>
  \<open>setTimeout(f, ms)\<close> runs \<open>f\<close> \<open>ms\<close> milliseconds later, or a little after that; a
  delay outside \<open>1 .. 2^31 - 1\<close> is replaced by 1. A timer whose callback is ready when
  the fetch settles runs first.
\<close>

definition setTimeout_delay :: "nat \<Rightarrow> nat" where
  "setTimeout_delay ms = (if 1 \<le> ms \<and> ms \<le> 2147483647 then ms else 1)"

definition timer_fires :: "platform \<Rightarrow> nat \<Rightarrow> nat" where
  "timer_fires env ms = setTimeout_delay ms + timer_lag env"

text \<open>What an aborted \<open>fetch\<close> rejects with.\<close>

definition abort_rejection :: thrown where
  "abort_rejection = ErrorInstance ''AbortError'' ''This operation was aborted''"

text \<open>
  \<open>encodeURIComponent\<close> on the UTF-8 bytes of a text: the unreserved characters stay,
  every other byte becomes \<open>%XX\<close>.
\<close>

definition hex_digit :: "nat \<Rightarrow> char" where
  "hex_digit d = ''0123456789ABCDEF'' ! d"

definition uri_unreserved :: "char \<Rightarrow> bool" where
  "uri_unreserved c =
     (c \<in> set (''ABCDEFGHIJKLMNOPQRSTUVWXYZabcdefghijklmnopqrstuvwxyz0123456789-_.!~*()''
               @ [CHR 0x27]))"

definition encodeURIComponent :: "string \<Rightarrow> string" where
  "encodeURIComponent s =
     concat (map (\<lambda>c. if uri_unreserved c then [c]
                       else [CHR ''%'', hex_digit ((of_char c :: nat) div 16),
                             hex_digit ((of_char c :: nat) mod 16)]) s)"

section \<open>The dispatcher (client.ts, makeRequest)\<close>

text \<open>
  The result of one operation: how long it took, the calls of \<open>fetch\<close> it made, and
  the value the promise is fulfilled with or what it is rejected with. The lines
  written to the console are not part of the model.
\<close>

record outcome =
  elapsed :: nat
  requests :: "request list"
  result :: "thrown + jsval"

text \<open>
  The body of the \<open>try\<close> block, lines 157 to 188. The timer is set, \<open>fetch\<close> is awaited,
  the timer is cleared, then the text of the body is awaited and parsed.
\<close>

definition parse_body :: "platform \<Rightarrow> string \<Rightarrow> jsval" where
  "parse_body env responseText =
     (if truthy_string responseText
      then (case JSON_parse env responseText of
              Some v \<Rightarrow> v
            | None \<Rightarrow> JObj [(''message'', JStr responseText)])
      else JObj [])"

definition try_block :: "platform \<Rightarrow> request \<Rightarrow> nat \<Rightarrow> nat \<times> (thrown + jsval)" where
  "try_block env requestOptions tmo =
     (let f = fetch env requestOptions
      in if timer_fires env tmo \<le> fetch_delay f
         then (timer_fires env tmo, Inl abort_rejection)
         else (case fetch_outcome f of
                 Inl e \<Rightarrow> (fetch_delay f, Inl e)
               | Inr response \<Rightarrow>
                   (case resp_text response of
                      Inl e \<Rightarrow> (fetch_delay f + resp_text_delay response, Inl e)
                    | Inr responseText \<Rightarrow>
                        (let responseBody = parse_body env responseText
                         in (fetch_delay f + resp_text_delay response,
                             if \<not> resp_ok response
                             then Inl (throw_new (createErrorFromResponse response
                                                    (Some responseBody)))
                             else Inr responseBody)))))"

text \<open>The \<open>catch\<close> block, lines 190 to 205: what it throws for what it caught.\<close>

fun catch_block :: "nat \<Rightarrow> thrown \<Rightarrow> thrown" where
  "catch_block tmo (Typed e) = Typed e"
| "catch_block tmo (ErrorInstance nm msg) =
     (if nm = ''AbortError''
      then throw_new (VectorcacheTimeoutError
             (Some (JStr (''Request timeout after '' @ number_to_string tmo @ ''ms''))))
      else throw_new (VectorcacheNetworkError (Some (JStr (''Network error: '' @ msg)))))"
| "catch_block tmo NonError =
     throw_new (VectorcacheAPIError (JStr ''Unknown error occurred'') None None None)"

definition resolve_timeout :: "client \<Rightarrow> RequestOptions option \<Rightarrow> nat" where
  "resolve_timeout c options =
     or_value truthy_number (Option.bind options opt_timeout) (timeout c)"

text \<open>
  Lines 139 to 152: the URL, the headers and the options handed to \<open>fetch\<close>. They are
  built before the \<open>try\<close> block is entered, and \<open>JSON.stringify(body)\<close>, which is
  evaluated for a truthy body, throws there if it throws.
\<close>

definition stringify_throws :: "jsval option \<Rightarrow> bool" where
  "stringify_throws body = (case body of None \<Rightarrow> False | Some b \<Rightarrow> truthy b \<and> has_bigint b)"

definition build_request ::
  "client \<Rightarrow> http_method \<Rightarrow> string \<Rightarrow> jsval option \<Rightarrow> request" where
  "build_request c method endpoint body =
     (let url = baseUrl c @ endpoint;
          headers = [(''Authorization'', ''Bearer '' @ apiKey c),
                     (''Content-Type'', ''application/json''),
                     (''User-Agent'', ''vectorcache-js/0.1.0'')]
      in \<lparr>req_url = url, req_method = method, req_headers = headers,
          req_body = (case body of
                        None \<Rightarrow> None
                      | Some b \<Rightarrow> if truthy b then Some b else None)\<rparr>)"

definition makeRequest ::
  "platform \<Rightarrow> client \<Rightarrow> http_method \<Rightarrow> string \<Rightarrow> jsval option \<Rightarrow> RequestOptions option
     \<Rightarrow> outcome" where
  "makeRequest env c method endpoint body options =
     (let tmo = resolve_timeout c options
      in if stringify_throws body
         then \<lparr>elapsed = 0, requests = [], result = Inl cannot_serialize\<rparr>
         else (let requestOptions = build_request c method endpoint body;
                   r = try_block env requestOptions tmo
               in \<lparr>elapsed = fst r,
                   requests = [requestOptions],
                   result = (case snd r of
                               Inl e \<Rightarrow> Inl (catch_block tmo e)
                             | Inr v \<Rightarrow> Inr v)\<rparr>))"

section \<open>The operations (client.ts)\<close>

definition query :: "platform \<Rightarrow> client \<Rightarrow> jsval \<Rightarrow> RequestOptions option \<Rightarrow> outcome" where
  "query env c request options =
     makeRequest env c POST ''/v1/cache/query'' (Some request) options"

definition testCache :: "platform \<Rightarrow> client \<Rightarrow> jsval \<Rightarrow> RequestOptions option \<Rightarrow> outcome" where
  "testCache env c request options =
     makeRequest env c POST ''/v1/cache/test'' (Some request) options"

definition clearCache :: "platform \<Rightarrow> client \<Rightarrow> jsval \<Rightarrow> RequestOptions option \<Rightarrow> outcome" where
  "clearCache env c request options =
     makeRequest env c POST ''/v1/cache/clear'' (Some request) options"

definition health :: "platform \<Rightarrow> client \<Rightarrow> outcome" where
  "health env c = makeRequest env c GET ''/health'' None None"

text \<open>
  \<open>projectId || options?.projectId || this.defaultProjectId\<close>, shared by the two
  operations that need a project.
\<close>

definition resolve_id :: "client \<Rightarrow> string option \<Rightarrow> RequestOptions option \<Rightarrow> string option" where
  "resolve_id c projectId options =
     or_else truthy_string
       (or_else truthy_string projectId (Option.bind options opt_projectId))
       (defaultProjectId c)"

text \<open>
  \<open>throw new VectorcacheAPIError('Project ID is required')\<close>, before \<open>makeRequest\<close> is
  called; \<open>project_id_error\<close> is the error that this constructs.
\<close>

definition project_id_error :: api_error where
  "project_id_error =
     \<lparr>name = APIError, message = ''Project ID is required'', status = None, code = None,
      details = None, retryAfter = None\<rparr>"

definition project_id_required :: outcome where
  "project_id_required =
     \<lparr>elapsed = 0, requests = [],
      result = Inl (throw_new
                 (VectorcacheAPIError (JStr ''Project ID is required'') None None None))\<rparr>"

definition getCacheStats ::
  "platform \<Rightarrow> client \<Rightarrow> string option \<Rightarrow> RequestOptions option \<Rightarrow> outcome" where
  "getCacheStats env c projectId options =
     (case resolve_id c projectId options of
        None \<Rightarrow> project_id_required
      | Some pid \<Rightarrow>
          if \<not> truthy_string pid then project_id_required
          else makeRequest env c GET (''/v1/cache/projects/'' @ pid @ ''/stats'')
                 None options)"

definition findSimilarQueries ::
  "platform \<Rightarrow> client \<Rightarrow> string \<Rightarrow> string option \<Rightarrow> RequestOptions option \<Rightarrow> outcome" where
  "findSimilarQueries env c q projectId options =
     (case resolve_id c projectId options of
        None \<Rightarrow> project_id_required
      | Some pid \<Rightarrow>
          if \<not> truthy_string pid then project_id_required
          else makeRequest env c GET
                 (''/v1/cache/projects/'' @ pid @ ''/similar?query='' @ encodeURIComponent q)
                 None options)"

text \<open>What a call returned, if it returned.\<close>

definition returned :: "thrown + 'a \<Rightarrow> 'a option" where
  "returned r = (case r of Inl ex \<Rightarrow> None | Inr x \<Rightarrow> Some x)"

section \<open>The specification's tables\<close>

text \<open>
  The table of section 4.2 of the specification, status to variant, written from the
  specification's words, to be compared with \<open>createErrorFromResponse\<close>.
\<close>

definition spec_variant :: "nat \<Rightarrow> error_name" where
  "spec_variant s =
     (if s = 400 then ValidationError
      else if s = 401 \<or> s = 403 then AuthenticationError
      else if s = 408 then TimeoutError
      else if s = 429 then RateLimitError
      else if s = 500 \<or> s = 502 \<or> s = 503 \<or> s = 504 then ServerError
      else APIError)"

text \<open>
  The message resolution order of section 4.2, written from the specification's words:
  the message field, else the detail field, else the reason phrase, else the fallback.
  A field counts when it is there and truthy.
\<close>

definition present :: "jsval option \<Rightarrow> bool" where
  "present v = (case v of None \<Rightarrow> False | Some x \<Rightarrow> truthy x)"

definition spec_message :: "jsval option \<Rightarrow> jsval option \<Rightarrow> string \<Rightarrow> jsval" where
  "spec_message msg_field detail_field reason =
     (if present msg_field then the msg_field
      else if present detail_field then the detail_field
      else if reason \<noteq> [] then JStr reason
      else JStr ''Unknown error'')"

text \<open>
  The resolution of the project identifier of section 4.1, written from the
  specification's words: the first candidate that is there and not empty.
\<close>

fun spec_project_id :: "string option list \<Rightarrow> string option" where
  "spec_project_id [] = None"
| "spec_project_id (None # xs) = spec_project_id xs"
| "spec_project_id (Some s # xs) = (if s \<noteq> [] then Some s else spec_project_id xs)"

section \<open>Concrete inputs\<close>

text \<open>
  A response with the given status, reason phrase, \<open>Retry-After\<close> header, and a body that
  arrives after the given delay.
\<close>

definition a_response :: "nat \<Rightarrow> string \<Rightarrow> string option \<Rightarrow> nat \<Rightarrow> string \<Rightarrow> response" where
  "a_response st reason retry_after delay body =
     \<lparr>resp_status = st, resp_statusText = reason,
      resp_headers_get = (\<lambda>h. if h = ''Retry-After'' then retry_after else None),
      resp_text_delay = delay, resp_text = Inr body\<rparr>"

definition unauthorized :: response where
  "unauthorized = a_response 401 ''Unauthorized'' None 0 ''{}''"

definition bad_request :: response where
  "bad_request = a_response 400 ''Bad Request'' None 0 ''{}''"

definition teapot :: response where
  "teapot = a_response 418 [] None 0 ''{}''"

definition unavailable :: response where
  "unavailable = a_response 503 ''Service Unavailable'' None 0 ''<html>busy</html>''"

definition too_many_120 :: response where
  "too_many_120 = a_response 429 ''Too Many Requests'' (Some ''120'') 0 ''{}''"

definition too_many_date :: response where
  "too_many_date =
     a_response 429 ''Too Many Requests'' (Some ''Wed, 21 Oct 2015 07:28:00 GMT'') 0 ''{}''"

definition empty_object :: "jsval option" where
  "empty_object = Some (JObj [])"

text \<open>Bodies whose message or detail is no string.\<close>

definition message_42 :: "jsval option" where
  "message_42 = Some (JObj [(''message'', JNum ''42'')])"

definition detail_list :: "jsval option" where
  "detail_list =
     Some (JObj [(''detail'',
       JArr [JObj [(''loc'', JArr [JStr ''body'', JStr ''query'']),
                   (''msg'', JStr ''field required'')],
             JObj [(''loc'', JArr [JStr ''body'', JStr ''model'']),
                   (''msg'', JStr ''field required'')]])])"

definition message_own_toString :: "jsval option" where
  "message_own_toString = Some (JObj [(''message'', JObj [(''toString'', JNum ''1'')])])"

text \<open>A query whose metadata hold a BigInt.\<close>

definition bigint_query :: jsval where
  "bigint_query =
     JObj [(''query'', JStr ''capital of France?''),
           (''metadata'', JObj [(''n'', JBigInt 10)])]"

text \<open>
  A platform whose \<open>fetch\<close> behaves in one given way, whose timers run 4 ms late, and
  whose \<open>JSON.parse\<close> is \<open>JSON.parse\<close> on the texts used below: \<open>{}\<close> is the empty
  object, the empty text and a page of HTML are syntax errors.
\<close>

definition a_platform :: "fetch_behaviour \<Rightarrow> platform" where
  "a_platform f =
     \<lparr>fetch = (\<lambda>req. f),
      JSON_parse = (\<lambda>t. if t = ''{}'' then Some (JObj []) else None),
      timer_lag = 4\<rparr>"

definition a_config :: VectorcacheConfig where
  "a_config =
     \<lparr>cfg_apiKey = Some ''sk-test'', cfg_baseUrl = None, cfg_projectId = None,
      cfg_timeout = None, cfg_logLevel = None\<rparr>"

definition a_client :: client where
  "a_client =
     \<lparr>apiKey = ''sk-test'', baseUrl = ''https://api.vectorcache.com'',
      defaultProjectId = None, timeout = 30000, logLevel = warn\<rparr>"

text \<open>Options that override the project identifier.\<close>

definition override_o1 :: "RequestOptions option" where
  "override_o1 = Some \<lparr>opt_projectId = Some ''o1'', opt_timeout = None\<rparr>"

text \<open>The connection is refused after 5 ms.\<close>

definition refused :: fetch_behaviour where
  "refused = \<lparr>fetch_delay = 5, fetch_outcome = Inl (ErrorInstance ''TypeError'' ''fetch failed'')\<rparr>"

text \<open>The server answers after 10 ms, and sends the body a minute later.\<close>

definition slow_body :: fetch_behaviour where
  "slow_body = \<lparr>fetch_delay = 10, fetch_outcome = Inr (a_response 200 ''OK'' None 60000 ''{}'')\<rparr>"

text \<open>The server answers after a minute.\<close>

definition slow_head :: fetch_behaviour where
  "slow_head = \<lparr>fetch_delay = 60000, fetch_outcome = Inr (a_response 200 ''OK'' None 0 ''{}'')\<rparr>"

text \<open>The server answers after 10 ms with the given response.\<close>

definition answers :: "response \<Rightarrow> fetch_behaviour" where
  "answers r = \<lparr>fetch_delay = 10, fetch_outcome = Inr r\<rparr>"

section \<open>Facts about the classifier\<close>

lemmas ctor_defs = VectorcacheAPIError_def VectorcacheAuthenticationError_def
  VectorcacheRateLimitError_def VectorcacheValidationError_def VectorcacheNetworkError_def
  VectorcacheTimeoutError_def VectorcacheServerError_def default_to_def after_super_def

lemmas input_defs = a_response_def unauthorized_def bad_request_def teapot_def
  unavailable_def too_many_120_def too_many_date_def empty_object_def a_platform_def
  a_config_def a_client_def refused_def slow_body_def slow_head_def answers_def
  message_42_def detail_list_def message_own_toString_def bigint_query_def override_o1_def

text \<open>The value that becomes the message is the one of the specification's order.\<close>

lemma resolve_message_spec:
  "resolve_message r b
     = spec_message (get_prop ''message'' b) (get_prop ''detail'' b) (resp_statusText r)"
  by (cases "get_prop ''message'' b"; cases "get_prop ''detail'' b")
     (auto simp: resolve_message_def or_value_def or_else_def spec_message_def present_def)

text \<open>The classifier throws exactly when the conversion of that value does.\<close>

lemma classify_throws:
  "js_to_string (resolve_message r b) = None \<Longrightarrow>
   createErrorFromResponse r b = Inl cannot_convert"
  by (simp add: createErrorFromResponse_def ctor_defs Let_def)

lemma classify_returns:
  "js_to_string (resolve_message r b) = Some s \<Longrightarrow>
   \<exists>e. createErrorFromResponse r b = Inr e
     \<and> name e = spec_variant (resp_status r)
     \<and> message e = s
     \<and> status e = Some (if resp_status r = 403 then 401 else resp_status r)
     \<and> details e = (if resp_status r = 400 \<or> spec_variant (resp_status r) = APIError
                    then b else None)
     \<and> (spec_variant (resp_status r) = APIError \<longrightarrow> code e = Some ''API_ERROR'')
     \<and> retryAfter e =
         (if resp_status r = 429
          then (case resp_headers_get r ''Retry-After'' of
                  None \<Rightarrow> None
                | Some h \<Rightarrow> if h = [] then None else Some (parseInt h))
          else None)"
  by (simp add: createErrorFromResponse_def spec_variant_def ctor_defs Let_def truthy_string_def
      split: option.splits)

lemma classify_message:
  "map_option message (returned (createErrorFromResponse r b))
     = js_to_string (resolve_message r b)"
proof (cases "js_to_string (resolve_message r b)")
  case None
  then show ?thesis by (simp add: classify_throws returned_def)
next
  case (Some s)
  from classify_returns [OF this] show ?thesis
    by (auto simp: returned_def Some)
qed

lemma classify_name:
  "map_option name (returned (createErrorFromResponse r b))
     = map_option (\<lambda>s. spec_variant (resp_status r)) (js_to_string (resolve_message r b))"
proof (cases "js_to_string (resolve_message r b)")
  case None
  then show ?thesis by (simp add: classify_throws returned_def)
next
  case (Some s)
  from classify_returns [OF this] show ?thesis
    by (auto simp: returned_def Some)
qed

text \<open>
  A string, a number and a boolean always have a string conversion; so has the value
  that becomes the message when the body has neither a message nor a detail, and the
  classifier then returns an error.
\<close>

lemma scalars_convert:
  "js_to_string (JStr s) = Some s"
  "js_to_string (JNum t) = Some t"
  "js_to_string (JBool b) = Some (if b then ''true'' else ''false'')"
  by simp_all

lemma classify_without_fields:
  assumes "\<not> present (get_prop ''message'' b)" and "\<not> present (get_prop ''detail'' b)"
  shows "\<exists>e. createErrorFromResponse r b = Inr e \<and> name e = spec_variant (resp_status r)"
proof -
  have "\<exists>s. js_to_string (resolve_message r b) = Some s"
    using assms by (simp add: resolve_message_spec spec_message_def)
  then obtain s where "js_to_string (resolve_message r b) = Some s" ..
  from classify_returns [OF this] show ?thesis by blast
qed




text \<open>
  C8. The message of the error that the classifier returns, whatever the variant, is
  the string of the body's message field, else of the body's detail field, else the
  reason phrase of the response, else \<open>Unknown error\<close>.
\<close>

theorem message_resolution_order:
  "map_option message (returned (createErrorFromResponse r b))
     = js_to_string
         (spec_message (get_prop ''message'' b) (get_prop ''detail'' b) (resp_statusText r))"
  by (simp add: classify_message resolve_message_spec)

theorem message_resolution_order_witness:
  "map_option message (returned (createErrorFromResponse bad_request message_42)) = Some ''42''
   \<and> map_option message (returned (createErrorFromResponse unauthorized detail_list))
       = Some ''[object Object],[object Object]''
   \<and> map_option message (returned (createErrorFromResponse unauthorized empty_object))
       = Some ''Unauthorized''
   \<and> map_option message (returned (createErrorFromResponse teapot empty_object))
       = Some ''Unknown error''"
  using message_resolution_order [of bad_request message_42]
    message_resolution_order [of unauthorized detail_list]
    message_resolution_order [of unauthorized empty_object]
    message_resolution_order [of teapot empty_object]
  by (simp add: spec_message_def present_def input_defs)




lemmas parseInt_defs = parseInt_def is_white_space_def is_digit_def digits_value_def
  digit_value_def

lemma retry_after_120:
  "map_option retryAfter (returned (createErrorFromResponse too_many_120 empty_object))
     = Some (Some (Num 120))"
  by (simp add: createErrorFromResponse_def resolve_message_def or_value_def or_else_def
      returned_def truthy_string_def ctor_defs input_defs parseInt_defs)

lemma retry_after_missing:
  "resp_status r = 429 \<Longrightarrow> resp_headers_get r ''Retry-After'' = None \<Longrightarrow>
   createErrorFromResponse r b = Inr e \<Longrightarrow> retryAfter e = None"
  by (auto simp: createErrorFromResponse_def ctor_defs Let_def split: option.splits)

text \<open>
  C7. A 429 response gives a RateLimit error whose \<open>retryAfter\<close> is the \<open>Retry-After\<close>
  header parsed as an integer (\<open>retry_after_120\<close>), and undefined without the header
  (\<open>retry_after_missing\<close>). A header that is no number is not handled: for the date
  form of the header, \<open>retryAfter\<close> is \<open>NaN\<close>, not undefined.
\<close>

theorem retry_after_unparsable:
  "createErrorFromResponse too_many_date empty_object
     = Inr \<lparr>name = RateLimitError, message = ''Too Many Requests'', status = Some 429,
            code = Some ''RATE_LIMIT_ERROR'', details = None, retryAfter = Some NaN\<rparr>
   \<and> parseInt ''Wed, 21 Oct 2015 07:28:00 GMT'' = NaN
   \<and> map_option retryAfter (returned (createErrorFromResponse too_many_date empty_object))
       = Some (Some NaN)
   \<and> map_option retryAfter (returned (createErrorFromResponse too_many_date empty_object))
       \<noteq> Some None"
  by (simp add: createErrorFromResponse_def resolve_message_def or_value_def or_else_def
      returned_def truthy_string_def ctor_defs input_defs parseInt_defs)

section \<open>Facts about the constructor\<close>

text \<open>
  C6. The constructor fails if and only if \<open>apiKey\<close> is missing or empty. With a
  non-empty \<open>apiKey\<close> it returns a client with that key, and with the default of every
  field that the configuration omits: the base URL, the timeout of 30000 ms, the log
  level \<open>warn\<close>. The constructor is a function of the configuration alone: it is not
  given the transport, and calls nothing of it.
\<close>

theorem constructor_requires_credential:
  "(isl (new_VectorcacheClient config)
      \<longleftrightarrow> cfg_apiKey config = None \<or> cfg_apiKey config = Some [])
   \<and> (\<forall>k. cfg_apiKey config = Some k \<and> k \<noteq> [] \<longrightarrow>
         (\<exists>c. new_VectorcacheClient config = Inr c
            \<and> apiKey c = k
            \<and> defaultProjectId c = cfg_projectId config
            \<and> (cfg_baseUrl config = None \<longrightarrow> baseUrl c = ''https://api.vectorcache.com'')
            \<and> (cfg_timeout config = None \<longrightarrow> timeout c = 30000)
            \<and> (cfg_logLevel config = None \<longrightarrow> logLevel c = warn)))"
  by (auto simp: new_VectorcacheClient_def truthy_string_def or_value_def split: option.splits)

theorem constructor_requires_credential_witness:
  "cfg_apiKey a_config = Some ''sk-test'' \<and> new_VectorcacheClient a_config = Inr a_client
   \<and> isl (new_VectorcacheClient (a_config\<lparr>cfg_apiKey := Some []\<rparr>))
   \<and> isl (new_VectorcacheClient (a_config\<lparr>cfg_apiKey := None\<rparr>))"
  using constructor_requires_credential [of a_config]
    constructor_requires_credential [of "a_config\<lparr>cfg_apiKey := Some []\<rparr>"]
    constructor_requires_credential [of "a_config\<lparr>cfg_apiKey := None\<rparr>"]
  by (auto simp: a_config_def a_client_def)

section \<open>Facts about the dispatcher\<close>

lemma requests_makeRequest:
  "\<not> stringify_throws b \<Longrightarrow>
   requests (makeRequest env c m ep b opts) = [build_request c m ep b]"
  by (simp add: makeRequest_def Let_def)

lemma result_makeRequest:
  "\<not> stringify_throws b \<Longrightarrow>
   result (makeRequest env c m ep b opts)
     = (case snd (try_block env (build_request c m ep b) (resolve_timeout c opts)) of
          Inl e \<Rightarrow> Inl (catch_block (resolve_timeout c opts) e)
        | Inr v \<Rightarrow> Inr v)"
  by (simp add: makeRequest_def Let_def)

lemma elapsed_makeRequest:
  "\<not> stringify_throws b \<Longrightarrow>
   elapsed (makeRequest env c m ep b opts)
     = fst (try_block env (build_request c m ep b) (resolve_timeout c opts))"
  by (simp add: makeRequest_def Let_def)

lemma no_body_no_stringify [simp]: "\<not> stringify_throws None"
  by (simp add: stringify_throws_def)

lemma url_build_request: "req_url (build_request c m ep b) = baseUrl c @ ep"
  by (simp add: build_request_def)

lemma try_block_rejected:
  "fetch_delay (fetch env req) < timer_fires env tmo \<Longrightarrow>
   fetch_outcome (fetch env req) = Inl e \<Longrightarrow>
   try_block env req tmo = (fetch_delay (fetch env req), Inl e)"
  by (simp add: try_block_def Let_def)

lemma try_block_aborted:
  "timer_fires env tmo \<le> fetch_delay (fetch env req) \<Longrightarrow>
   try_block env req tmo = (timer_fires env tmo, Inl abort_rejection)"
  by (simp add: try_block_def Let_def)

lemma try_block_answered:
  "fetch_delay (fetch env req) < timer_fires env tmo \<Longrightarrow>
   fetch_outcome (fetch env req) = Inr r \<Longrightarrow> resp_text r = Inr t \<Longrightarrow>
   try_block env req tmo =
     (fetch_delay (fetch env req) + resp_text_delay r,
      if resp_ok r then Inr (parse_body env t)
      else Inl (throw_new (createErrorFromResponse r (Some (parse_body env t)))))"
  by (simp add: try_block_def Let_def)

lemma try_block_text_rejected:
  "fetch_delay (fetch env req) < timer_fires env tmo \<Longrightarrow>
   fetch_outcome (fetch env req) = Inr r \<Longrightarrow> resp_text r = Inl e \<Longrightarrow>
   try_block env req tmo = (fetch_delay (fetch env req) + resp_text_delay r, Inl e)"
  by (simp add: try_block_def Let_def)

text \<open>
  Whatever the \<open>catch\<close> block catches, it throws one of the SDK's errors: the error it
  caught if that was one, a Timeout error for an abort, a Network error with the message
  of any other \<open>Error\<close>, the generic error for anything else.
\<close>

lemma catch_block_typed:
  "catch_block tmo ex =
     Typed (case ex of
        Typed e \<Rightarrow> e
      | ErrorInstance nm msg \<Rightarrow>
          if nm = ''AbortError''
          then \<lparr>name = TimeoutError,
                message = ''Request timeout after '' @ number_to_string tmo @ ''ms'',
                status = Some 408, code = Some ''TIMEOUT_ERROR'', details = None,
                retryAfter = None\<rparr>
          else \<lparr>name = NetworkError, message = ''Network error: '' @ msg,
                status = None, code = Some ''NETWORK_ERROR'', details = None,
                retryAfter = None\<rparr>
      | NonError \<Rightarrow>
          \<lparr>name = APIError, message = ''Unknown error occurred'', status = None,
           code = None, details = None, retryAfter = None\<rparr>)"
  by (cases ex) (simp_all add: ctor_defs throw_new_def)

text \<open>
  Once the request is built, the operation calls \<open>fetch\<close> once, and fails exactly when
  the \<open>try\<close> block throws, with one of the SDK's errors.
\<close>

lemma inside_try_typed:
  assumes "\<not> stringify_throws b"
  shows "requests (makeRequest env c m ep b opts) = [build_request c m ep b]
    \<and> (case snd (try_block env (build_request c m ep b) (resolve_timeout c opts)) of
          Inl ex \<Rightarrow> \<exists>e. catch_block (resolve_timeout c opts) ex = Typed e
                      \<and> result (makeRequest env c m ep b opts) = Inl (Typed e)
        | Inr v \<Rightarrow> result (makeRequest env c m ep b opts) = Inr v)"
  using assms
  by (auto simp: requests_makeRequest result_makeRequest catch_block_typed split: sum.splits)

text \<open>
  C3. Every failure inside the \<open>try\<close> block reaches the caller as one of the SDK's
  errors (\<open>inside_try_typed\<close>, \<open>catch_block_typed\<close>). The options of the request are built
  before the \<open>try\<close> block, and \<open>JSON.stringify\<close> throws there on a body that holds a
  BigInt: the query is then rejected with the \<open>TypeError\<close> as it is, which is none of the
  SDK's errors, and \<open>fetch\<close> is not called.
\<close>

theorem unserializable_body_raw:
  "result (query (a_platform refused) a_client bigint_query None) = Inl cannot_serialize
   \<and> cannot_serialize = ErrorInstance ''TypeError'' ''Do not know how to serialize a BigInt''
   \<and> requests (query (a_platform refused) a_client bigint_query None) = []"
  by (simp add: query_def makeRequest_def stringify_throws_def cannot_serialize_def
      bigint_query_def)

lemma resolve_timeout_eq:
  "resolve_timeout c opts =
     (case Option.bind opts opt_timeout of
        None \<Rightarrow> timeout c
      | Some t \<Rightarrow> if t \<noteq> 0 then t else timeout c)"
  by (simp add: resolve_timeout_def or_value_def truthy_number_def split: option.splits)

lemma constructed_timeout: "new_VectorcacheClient config = Inr c \<Longrightarrow> timeout c \<noteq> 0"
  by (auto simp: new_VectorcacheClient_def or_value_def truthy_number_def
      split: option.splits if_splits)

text \<open>
  When the timer runs before \<open>fetch\<close> has settled, the call fails with a Timeout error
  whose message reports the timeout of the call.
\<close>

lemma aborted_is_timeout:
  assumes "\<not> stringify_throws b"
    and "timer_fires env (resolve_timeout c opts)
           \<le> fetch_delay (fetch env (build_request c m ep b))"
  shows "result (makeRequest env c m ep b opts)
     = Inl (Typed \<lparr>name = TimeoutError,
                   message = ''Request timeout after ''
                               @ number_to_string (resolve_timeout c opts) @ ''ms'',
                   status = Some 408, code = Some ''TIMEOUT_ERROR'', details = None,
                   retryAfter = None\<rparr>)"
  using assms
  by (simp add: result_makeRequest try_block_aborted abort_rejection_def catch_block_typed)

text \<open>
  C4. A call whose response has not arrived when the timer runs is aborted and fails
  with a Timeout error that reports the timeout (\<open>aborted_is_timeout\<close>). But the timer is
  cleared as soon as the response has arrived, before its body is read: with the timeout
  of 30000 ms, a response that arrives after 10 ms and whose body takes a minute makes
  the call last 60010 ms, and the call succeeds.
\<close>

theorem body_read_outlives_timeout:
  "new_VectorcacheClient a_config = Inr a_client
   \<and> resolve_timeout a_client None = 30000
   \<and> elapsed (health (a_platform slow_body) a_client) = 60010
   \<and> result (health (a_platform slow_body) a_client) = Inr (JObj [])"
  by (simp add: health_def makeRequest_def try_block_def parse_body_def resp_ok_def
      resolve_timeout_def or_value_def setTimeout_delay_def timer_fires_def truthy_string_def
      new_VectorcacheClient_def truthy_number_def stringify_throws_def input_defs Let_def)

text \<open>
  C5, as the code has it. The body is read as text. A text that is not empty and that
  \<open>JSON.parse\<close> rejects becomes the object with the single field \<open>message\<close> holding the
  text, and that object is the body: the value returned for a 2xx response, the body
  given to the classifier otherwise, whose error then carries the text as its message.
  The caller never sees the syntax error. An empty text is not parsed: the body is then
  the empty object.
\<close>

theorem malformed_body_wrapped:
  assumes "JSON_parse env t = None" and "t \<noteq> []"
  shows "parse_body env t = JObj [(''message'', JStr t)]
    \<and> (\<forall>r. \<not> stringify_throws b
           \<and> fetch_delay (fetch env (build_request c m ep b))
               < timer_fires env (resolve_timeout c opts)
           \<and> fetch_outcome (fetch env (build_request c m ep b)) = Inr r
           \<and> resp_text r = Inr t
         \<longrightarrow> (resp_ok r \<longrightarrow>
                result (makeRequest env c m ep b opts) = Inr (JObj [(''message'', JStr t)]))
           \<and> (\<not> resp_ok r \<longrightarrow>
                (\<exists>e. createErrorFromResponse r (Some (JObj [(''message'', JStr t)])) = Inr e
                   \<and> message e = t
                   \<and> result (makeRequest env c m ep b opts) = Inl (Typed e))))"
proof -
  have pb: "parse_body env t = JObj [(''message'', JStr t)]"
    using assms by (simp add: parse_body_def truthy_string_def)
  have rm: "\<And>r. resolve_message r (Some (JObj [(''message'', JStr t)])) = JStr t"
    using assms(2) by (simp add: resolve_message_def or_value_def or_else_def)
  have cl: "\<And>r. \<exists>e. createErrorFromResponse r (Some (JObj [(''message'', JStr t)])) = Inr e
                   \<and> message e = t"
    using classify_returns [of _ "Some (JObj [(''message'', JStr t)])" t]
    by (simp add: rm) blast
  show ?thesis
  proof (intro conjI allI impI)
    show "parse_body env t = JObj [(''message'', JStr t)]" by (rule pb)
  next
    fix r
    assume a: "\<not> stringify_throws b
           \<and> fetch_delay (fetch env (build_request c m ep b))
               < timer_fires env (resolve_timeout c opts)
           \<and> fetch_outcome (fetch env (build_request c m ep b)) = Inr r
           \<and> resp_text r = Inr t"
      and ok: "resp_ok r"
    then show "result (makeRequest env c m ep b opts) = Inr (JObj [(''message'', JStr t)])"
      by (simp add: result_makeRequest try_block_answered pb)
  next
    fix r
    assume a: "\<not> stringify_throws b
           \<and> fetch_delay (fetch env (build_request c m ep b))
               < timer_fires env (resolve_timeout c opts)
           \<and> fetch_outcome (fetch env (build_request c m ep b)) = Inr r
           \<and> resp_text r = Inr t"
      and nok: "\<not> resp_ok r"
    from cl [of r] obtain e where
      e: "createErrorFromResponse r (Some (JObj [(''message'', JStr t)])) = Inr e" "message e = t"
      by blast
    from a nok e have
      "result (makeRequest env c m ep b opts) = Inl (Typed e)"
      by (simp add: result_makeRequest try_block_answered pb throw_new_def)
    with e show "\<exists>e. createErrorFromResponse r (Some (JObj [(''message'', JStr t)])) = Inr e
                   \<and> message e = t
                   \<and> result (makeRequest env c m ep b opts) = Inl (Typed e)"
      by blast
  qed
qed

theorem malformed_body_wrapped_witness:
  "JSON_parse (a_platform (answers unavailable)) ''<html>busy</html>'' = None
   \<and> ''<html>busy</html>'' \<noteq> []
   \<and> parse_body (a_platform (answers unavailable)) ''<html>busy</html>''
       = JObj [(''message'', JStr ''<html>busy</html>'')]
   \<and> result (health (a_platform (answers unavailable)) a_client)
       = Inl (Typed \<lparr>name = ServerError, message = ''<html>busy</html>'', status = Some 503,
                     code = Some ''SERVER_ERROR'', details = None, retryAfter = None\<rparr>)"
  using malformed_body_wrapped [of "a_platform (answers unavailable)" "''<html>busy</html>''"
      None a_client GET "''/health''" None]
  by (simp add: health_def makeRequest_def try_block_def parse_body_def resp_ok_def
      resolve_timeout_def or_value_def or_else_def setTimeout_delay_def timer_fires_def
      truthy_string_def truthy_number_def stringify_throws_def throw_new_def
      createErrorFromResponse_def resolve_message_def ctor_defs input_defs Let_def)

text \<open>
  As the specification states it, the property fails: the empty text is no valid JSON,
  and the body of a response with an empty text is \<open>{}\<close>, not an object with a message.
\<close>

theorem malformed_body_counterexample:
  "JSON_parse (a_platform (answers (a_response 200 ''OK'' None 0 []))) [] = None
   \<and> parse_body (a_platform (answers (a_response 200 ''OK'' None 0 []))) [] = JObj []
   \<and> result (health (a_platform (answers (a_response 200 ''OK'' None 0 []))) a_client)
       = Inr (JObj [])
   \<and> result (health (a_platform (answers (a_response 200 ''OK'' None 0 []))) a_client)
       \<noteq> Inr (JObj [(''message'', JStr [])])"
  by (simp add: health_def makeRequest_def try_block_def parse_body_def resp_ok_def
      resolve_timeout_def or_value_def setTimeout_delay_def timer_fires_def truthy_string_def
      truthy_number_def stringify_throws_def input_defs Let_def)

section \<open>Facts about the project identifier\<close>

lemma project_id_error_constructed:
  "VectorcacheAPIError (JStr ''Project ID is required'') None None None = Inr project_id_error"
  by (simp add: VectorcacheAPIError_def project_id_error_def)

lemma result_project_id_required: "result project_id_required = Inl (Typed project_id_error)"
  by (simp add: project_id_required_def project_id_error_constructed throw_new_def)

lemma requests_project_id_required: "requests project_id_required = []"
  by (simp add: project_id_required_def)

lemma resolve_id_spec:
  "(case resolve_id c p opts of None \<Rightarrow> None | Some i \<Rightarrow> if i \<noteq> [] then Some i else None)
     = spec_project_id [p, Option.bind opts opt_projectId, defaultProjectId c]"
  by (cases p; cases "Option.bind opts opt_projectId"; cases "defaultProjectId c")
     (auto simp: resolve_id_def or_else_def truthy_string_def)

lemma getCacheStats_resolved:
  "getCacheStats env c p opts =
     (case spec_project_id [p, Option.bind opts opt_projectId, defaultProjectId c] of
        None \<Rightarrow> project_id_required
      | Some i \<Rightarrow> makeRequest env c GET (''/v1/cache/projects/'' @ i @ ''/stats'') None opts)"
  unfolding resolve_id_spec [symmetric]
  by (simp add: getCacheStats_def truthy_string_def split: option.splits)

lemma findSimilarQueries_resolved:
  "findSimilarQueries env c q p opts =
     (case spec_project_id [p, Option.bind opts opt_projectId, defaultProjectId c] of
        None \<Rightarrow> project_id_required
      | Some i \<Rightarrow> makeRequest env c GET
          (''/v1/cache/projects/'' @ i @ ''/similar?query='' @ encodeURIComponent q) None opts)"
  unfolding resolve_id_spec [symmetric]
  by (simp add: findSimilarQueries_def truthy_string_def split: option.splits)

lemma spec_project_id_nonempty: "spec_project_id xs = Some i \<Longrightarrow> i \<noteq> []"
  by (induction xs rule: spec_project_id.induct) (auto split: if_splits)

lemma urls_makeRequest:
  "map req_url (requests (makeRequest env c m ep None opts)) = [baseUrl c @ ep]"
  by (simp add: requests_makeRequest url_build_request)

text \<open>
  C2, as the code has it. \<open>getCacheStats\<close> and \<open>findSimilarQueries\<close> take as project
  identifier the explicit argument, else the override of the options, else the default
  of the client. When none of the three gives one, the call fails before any call of
  \<open>fetch\<close>, with the generic API error \<open>Project ID is required\<close>, which has no status and
  no code. When only the default of the client gives one, it is the identifier in the
  path of the one request.
\<close>

theorem project_id_resolution:
  "getCacheStats env c p opts =
     (case spec_project_id [p, Option.bind opts opt_projectId, defaultProjectId c] of
        None \<Rightarrow> project_id_required
      | Some i \<Rightarrow> makeRequest env c GET (''/v1/cache/projects/'' @ i @ ''/stats'') None opts)
   \<and> findSimilarQueries env c q p opts =
     (case spec_project_id [p, Option.bind opts opt_projectId, defaultProjectId c] of
        None \<Rightarrow> project_id_required
      | Some i \<Rightarrow> makeRequest env c GET
          (''/v1/cache/projects/'' @ i @ ''/similar?query='' @ encodeURIComponent q) None opts)
   \<and> requests project_id_required = []
   \<and> result project_id_required = Inl (Typed project_id_error)
   \<and> name project_id_error = APIError
   \<and> message project_id_error = ''Project ID is required''
   \<and> (\<forall>d. p = None \<and> Option.bind opts opt_projectId = None
           \<and> defaultProjectId c = Some d \<and> d \<noteq> []
         \<longrightarrow> map req_url (requests (getCacheStats env c p opts))
               = [baseUrl c @ ''/v1/cache/projects/'' @ d @ ''/stats'']
           \<and> map req_url (requests (findSimilarQueries env c q p opts))
               = [baseUrl c @ ''/v1/cache/projects/'' @ d @ ''/similar?query=''
                    @ encodeURIComponent q])"
  by (simp add: getCacheStats_resolved findSimilarQueries_resolved
      requests_project_id_required result_project_id_required project_id_error_def
      urls_makeRequest)

theorem project_id_resolution_witness:
  "defaultProjectId (setDefaultProjectId a_client ''p1'') = Some ''p1''
   \<and> map req_url (requests (getCacheStats (a_platform refused)
                              (setDefaultProjectId a_client ''p1'') None None))
       = [''https://api.vectorcache.com/v1/cache/projects/p1/stats'']
   \<and> map req_url (requests (findSimilarQueries (a_platform refused)
                              (setDefaultProjectId a_client ''p1'') ''a b'' None None))
       = [''https://api.vectorcache.com/v1/cache/projects/p1/similar?query=a%20b'']
   \<and> requests (getCacheStats (a_platform refused) a_client None None) = []"
  using project_id_resolution [of "a_platform refused" "setDefaultProjectId a_client ''p1''"
      None None "''a b''"]
    project_id_resolution [of "a_platform refused" a_client None None "''a b''"]
  by (simp add: setDefaultProjectId_def a_client_def encodeURIComponent_def uri_unreserved_def
      hex_digit_def urls_makeRequest)

text \<open>
  As the specification states it, the property fails: the error is of the base class,
  not a Validation error.
\<close>

theorem project_id_validation_counterexample:
  "result (getCacheStats (a_platform refused) a_client None None)
     = Inl (Typed project_id_error)
   \<and> result (findSimilarQueries (a_platform refused) a_client ''hello'' None None)
       = Inl (Typed project_id_error)
   \<and> name project_id_error = APIError
   \<and> name project_id_error \<noteq> ValidationError
   \<and> status project_id_error = None
   \<and> code project_id_error = None"
  by (simp add: getCacheStats_resolved findSimilarQueries_resolved result_project_id_required
      project_id_error_def a_client_def)

text \<open>
  C10. An empty string as explicit project identifier is the same as none, for
  \<open>getCacheStats\<close> and for \<open>findSimilarQueries\<close>. The call with the empty string
  dispatches the one request whose path holds the override of the options if that is
  there and not empty, else the default of the client if that is there and not empty;
  the identifier in the path is never empty. When neither is there, the call fails
  before any call of \<open>fetch\<close> with \<open>Project ID is required\<close>, as the call without an
  identifier does.
\<close>

theorem empty_project_id_absent:
  "getCacheStats env c (Some []) opts = getCacheStats env c None opts
   \<and> findSimilarQueries env c q (Some []) opts = findSimilarQueries env c q None opts
   \<and> (\<forall>i. spec_project_id [Option.bind opts opt_projectId, defaultProjectId c] = Some i
         \<longrightarrow> i \<noteq> []
           \<and> getCacheStats env c (Some []) opts
               = makeRequest env c GET (''/v1/cache/projects/'' @ i @ ''/stats'') None opts
           \<and> map req_url (requests (getCacheStats env c (Some []) opts))
               = [baseUrl c @ ''/v1/cache/projects/'' @ i @ ''/stats'']
           \<and> findSimilarQueries env c q (Some []) opts
               = makeRequest env c GET
                   (''/v1/cache/projects/'' @ i @ ''/similar?query='' @ encodeURIComponent q)
                   None opts
           \<and> map req_url (requests (findSimilarQueries env c q (Some []) opts))
               = [baseUrl c @ ''/v1/cache/projects/'' @ i @ ''/similar?query=''
                    @ encodeURIComponent q])
   \<and> (spec_project_id [Option.bind opts opt_projectId, defaultProjectId c] = None
         \<longrightarrow> getCacheStats env c (Some []) opts = project_id_required
           \<and> findSimilarQueries env c q (Some []) opts = project_id_required
           \<and> requests project_id_required = []
           \<and> result project_id_required = Inl (Typed project_id_error))"
  by (auto simp: getCacheStats_resolved findSimilarQueries_resolved urls_makeRequest
      requests_project_id_required result_project_id_required
      dest: spec_project_id_nonempty)

theorem empty_project_id_absent_witness:
  "spec_project_id [Option.bind override_o1 opt_projectId,
                    defaultProjectId (setDefaultProjectId a_client ''d1'')] = Some ''o1''
   \<and> map req_url (requests (getCacheStats (a_platform refused)
                              (setDefaultProjectId a_client ''d1'') (Some []) override_o1))
       = [''https://api.vectorcache.com/v1/cache/projects/o1/stats'']
   \<and> map req_url (requests (findSimilarQueries (a_platform refused)
                              (setDefaultProjectId a_client ''d1'') ''a b'' (Some []) override_o1))
       = [''https://api.vectorcache.com/v1/cache/projects/o1/similar?query=a%20b'']
   \<and> spec_project_id [Option.bind None opt_projectId,
                      defaultProjectId (setDefaultProjectId a_client ''d1'')] = Some ''d1''
   \<and> map req_url (requests (getCacheStats (a_platform refused)
                              (setDefaultProjectId a_client ''d1'') (Some []) None))
       = [''https://api.vectorcache.com/v1/cache/projects/d1/stats'']
   \<and> spec_project_id [Option.bind None opt_projectId, defaultProjectId a_client] = None
   \<and> result (getCacheStats (a_platform refused) a_client (Some []) None)
       = Inl (Typed project_id_error)
   \<and> requests (findSimilarQueries (a_platform refused) a_client ''a b'' (Some []) None) = []"
  using empty_project_id_absent [of "a_platform refused" "setDefaultProjectId a_client ''d1''"
      override_o1 "''a b''"]
    empty_project_id_absent [of "a_platform refused" "setDefaultProjectId a_client ''d1''"
      None "''a b''"]
    empty_project_id_absent [of "a_platform refused" a_client None "''a b''"]
  by (simp add: setDefaultProjectId_def a_client_def override_o1_def encodeURIComponent_def
      uri_unreserved_def hex_digit_def getCacheStats_resolved findSimilarQueries_resolved
      urls_makeRequest result_project_id_required requests_project_id_required)

end
